theory Spec2Isabelle
  imports Main "HOL-Library.Sublist" "HOL-Library.AList"
begin

section \<open>Python strings\<close>

text \<open>
  The program is \<^verbatim>\<open>LLM_Usage/SQL_Ollama/sqlite_schema_explorer.py\<close>. A Python
  \<^verbatim>\<open>str\<close> is modelled as a \<^typ>\<open>string\<close>; a \<^typ>\<open>char\<close> stands for a
  code point below 256. \<^verbatim>\<open>str.isspace\<close> holds on exactly twelve of them.
\<close>

definition is_space :: "char \<Rightarrow> bool" where
  "is_space c = (of_char c \<in> {9, 10, 11, 12, 13, 28, 29, 30, 31, 32, 133, 160 :: nat})"

definition strip :: "string \<Rightarrow> string" where
  \<comment> \<open>\<^verbatim>\<open>s.strip()\<close>: drop leading, then trailing white space.\<close>
  "strip s = rev (dropWhile is_space (rev (dropWhile is_space s)))"

definition startswith :: "string \<Rightarrow> string \<Rightarrow> bool" where
  "startswith s p = prefix p s"

definition endswith :: "string \<Rightarrow> string \<Rightarrow> bool" where
  "endswith s p = suffix p s"

fun replace_first :: "string \<Rightarrow> string \<Rightarrow> string \<Rightarrow> string" where
  \<comment> \<open>\<^verbatim>\<open>s.replace(old, new, 1)\<close>: only the leftmost occurrence is replaced.\<close>
  "replace_first old new [] = (if old = [] then new else [])"
| "replace_first old new (c # cs) =
     (if prefix old (c # cs) then new @ drop (length old) (c # cs)
      else c # replace_first old new cs)"

fun rfind_opt :: "string \<Rightarrow> string \<Rightarrow> nat option" where
  \<comment> \<open>the highest index at which \<open>sub\<close> occurs in the text, if any\<close>
  "rfind_opt sub [] = (if sub = [] then Some 0 else None)"
| "rfind_opt sub (c # cs) =
     (case rfind_opt sub cs of
        Some i \<Rightarrow> Some (Suc i)
      | None \<Rightarrow> if prefix sub (c # cs) then Some 0 else None)"

definition rfind :: "string \<Rightarrow> string \<Rightarrow> int" where
  \<comment> \<open>\<^verbatim>\<open>s.rfind(sub)\<close>: \<open>-1\<close> when there is no occurrence.\<close>
  "rfind s sub = (case rfind_opt sub s of None \<Rightarrow> - 1 | Some i \<Rightarrow> int i)"

definition slice_to :: "string \<Rightarrow> int \<Rightarrow> string" where
  \<comment> \<open>\<^verbatim>\<open>s[:k]\<close>: a negative \<open>k\<close> counts from the end.\<close>
  "slice_to s k = (if 0 \<le> k then take (nat k) s else take (length s - nat (- k)) s)"

fun join :: "string \<Rightarrow> string list \<Rightarrow> string" where
  \<comment> \<open>\<^verbatim>\<open>sep.join(xs)\<close>\<close>
  "join sep [] = []"
| "join sep [x] = x"
| "join sep (x # y # ys) = x @ sep @ join sep (y # ys)"

definition ljust :: "string \<Rightarrow> nat \<Rightarrow> string" where
  \<comment> \<open>\<^verbatim>\<open>s.ljust(w)\<close>: pad with blanks on the right, never truncate.\<close>
  "ljust s w = s @ replicate (w - length s) (CHR '' '')"

fun str_nat :: "nat \<Rightarrow> string" where
  "str_nat n =
     (if n < 10 then [''0123456789'' ! n]
      else str_nat (n div 10) @ [''0123456789'' ! (n mod 10)])"

declare str_nat.simps [simp del]

definition str_int :: "int \<Rightarrow> string" where
  \<comment> \<open>\<^verbatim>\<open>str(i)\<close> of a Python integer\<close>
  "str_int i = (if i < 0 then CHR ''-'' # str_nat (nat (- i)) else str_nat (nat i))"

section \<open>The query sanitizer\<close>

text \<open>
  Lines 290 to 302 of \<^verbatim>\<open>natural_language_to_sql\<close>, the clean-up of the generated
  text:
  \<^verbatim>\<open>
    sql_query = sql_query.strip()
    if sql_query.startswith("```sql"):
        sql_query = sql_query.replace("```sql", "", 1).strip()
    elif sql_query.startswith("```"):
        sql_query = sql_query.replace("```", "", 1).strip()
    if sql_query.endswith("```"):
        sql_query = sql_query[:sql_query.rfind("```")].strip()
    return sql_query
  \<close>
\<close>

definition sanitize :: "string \<Rightarrow> string" where
  "sanitize raw =
     (let sql_query = strip raw;
          sql_query =
            (if startswith sql_query ''```sql''
             then strip (replace_first ''```sql'' '''' sql_query)
             else if startswith sql_query ''```''
             then strip (replace_first ''```'' '''' sql_query)
             else sql_query);
          sql_query =
            (if endswith sql_query ''```''
             then strip (slice_to sql_query (rfind sql_query ''```''))
             else sql_query)
      in sql_query)"

text \<open>
  The sanitizer as the specification words it: trim; when the trimmed text begins with
  a fence opener, which may carry a language hint (the word that follows the three
  backquotes), remove that opener and, if the rest ends with a fence, that closing
  fence; trim again. Text that does not begin with an opener is only trimmed.
\<close>

definition sanitize_spec :: "string \<Rightarrow> string" where
  "sanitize_spec raw =
     (let t = strip raw
      in if prefix ''```'' t
         then (let body = dropWhile (\<lambda>c. \<not> is_space c) (drop 3 t);
                   body = (if suffix ''```'' body then take (length body - 3) body else body)
               in strip body)
         else t)"

definition fence_free :: "string \<Rightarrow> bool" where
  \<comment> \<open>no run of three backquotes anywhere in the text\<close>
  "fence_free s = (\<not> sublist ''```'' s)"

section \<open>Values of the database driver\<close>

text \<open>
  What \<^verbatim>\<open>sqlite3\<close> hands back in a row: \<^verbatim>\<open>None\<close>, an \<^verbatim>\<open>int\<close>, a
  \<^verbatim>\<open>float\<close>, a \<^verbatim>\<open>str\<close> or \<^verbatim>\<open>bytes\<close>; \<^verbatim>\<open>bytearray\<close> is the second
  type that \<^verbatim>\<open>execute_query\<close> tests for. A float is carried by its \<^verbatim>\<open>repr\<close>
  text, which determines it; bytes are a list of 8-bit characters.
\<close>

datatype pyval =
    PyNone
  | PyInt int
  | PyFloat string
  | PyStr string
  | PyBytes "char list"
  | PyByteArray "char list"

definition hex_digit :: "nat \<Rightarrow> char" where
  "hex_digit d = ''0123456789abcdef'' ! d"

definition repr_byte :: "char \<Rightarrow> char \<Rightarrow> string" where
  \<comment> \<open>one byte inside a bytes literal; the first argument is the character that is
      escaped as a quote\<close>
  "repr_byte q c =
     (if c = q \<or> c = CHR 0x5C then [CHR 0x5C, c]
      else if c = CHR 0x09 then [CHR 0x5C, CHR ''t'']
      else if c = CHR 0x0A then [CHR 0x5C, CHR ''n'']
      else if c = CHR 0x0D then [CHR 0x5C, CHR ''r'']
      else if (of_char c :: nat) < 32 \<or> 127 \<le> (of_char c :: nat)
      then [CHR 0x5C, CHR ''x'', hex_digit (of_char c div 16), hex_digit (of_char c mod 16)]
      else [c])"

definition bytes_quote :: "char list \<Rightarrow> char" where
  \<comment> \<open>a single quote, unless the bytes hold one and no double quote\<close>
  "bytes_quote b = (if CHR 0x27 \<in> set b \<and> CHR 0x22 \<notin> set b then CHR 0x22 else CHR 0x27)"

definition repr_bytes :: "char list \<Rightarrow> string" where
  \<comment> \<open>\<^verbatim>\<open>repr(b)\<close> of a bytes object (CPython 3.11)\<close>
  "repr_bytes b =
     (let q = bytes_quote b in CHR ''b'' # q # concat (map (repr_byte q) b) @ [q])"

definition repr_bytearray :: "char list \<Rightarrow> string" where
  \<comment> \<open>\<^verbatim>\<open>repr\<close> of a bytearray (CPython 3.11): the single quote is always escaped\<close>
  "repr_bytearray b =
     (let q = bytes_quote b
      in ''bytearray(b'' @ q # concat (map (repr_byte (CHR 0x27)) b) @ [q] @ '')'')"

fun py_str :: "pyval \<Rightarrow> string" where
  \<comment> \<open>\<^verbatim>\<open>str(v)\<close>, which is also what an f-string field \<^verbatim>\<open>{v}\<close> inserts\<close>
  "py_str PyNone = ''None''"
| "py_str (PyInt i) = str_int i"
| "py_str (PyFloat r) = r"
| "py_str (PyStr s) = s"
| "py_str (PyBytes b) = repr_bytes b"
| "py_str (PyByteArray b) = repr_bytearray b"

fun py_eq_one :: "pyval \<Rightarrow> bool" where
  \<comment> \<open>\<^verbatim>\<open>v == 1\<close>\<close>
  "py_eq_one (PyInt i) = (i = 1)"
| "py_eq_one (PyFloat r) = (r = ''1.0'')"
| "py_eq_one _ = False"

section \<open>The driver and the explorer\<close>

text \<open>
  \<^verbatim>\<open>sqlite3\<close> is not part of the repository: it is a parameter of the model. The
  state of the database behind a connection has any type \<^typ>\<open>'db\<close>. An exception is
  carried by its text, \<^verbatim>\<open>str(e)\<close>, which is all the program reads of it.

  \<open>drv_execute\<close> stands for \<^verbatim>\<open>connection.cursor()\<close> followed by
  \<^verbatim>\<open>cursor.execute(sql)\<close>: it raises, or yields the cursor, and gives the state
  of the database afterwards in both cases. \<open>drv_commit\<close> is
  \<^verbatim>\<open>connection.commit()\<close>; it returns the exception it raises, if any.
  \<^verbatim>\<open>cursor.close()\<close> is taken to succeed, and \<^verbatim>\<open>fetchone\<close> to give the
  first of the rows that \<^verbatim>\<open>fetchall\<close> gives.
\<close>

type_synonym exn = string

record cursor =
  description :: "string list option"  \<comment> \<open>the column names, \<^verbatim>\<open>d[0]\<close> of each entry\<close>
  fetchall :: "exn + pyval list list"
  rowcount :: int

record 'db driver =
  drv_execute :: "'db \<Rightarrow> string \<Rightarrow> (exn + cursor) \<times> 'db"
  drv_commit :: "'db \<Rightarrow> exn option \<times> 'db"

text \<open>
  The object \<^verbatim>\<open>SQLiteExplorer\<close>, with the standard output of the process in the
  same record: every \<^verbatim>\<open>print\<close> appends one entry. \<open>connection\<close> is
  \<^verbatim>\<open>None\<close> until \<^verbatim>\<open>connect\<close> has succeeded.
\<close>

record 'db explorer =
  db_file :: string
  connection :: "'db option"
  stdout :: "string list"

definition print :: "string \<Rightarrow> 'db explorer \<Rightarrow> 'db explorer" where
  "print line self = self\<lparr>stdout := stdout self @ [line]\<rparr>"

definition no_cursor_attr :: exn where
  "no_cursor_attr = [CHR 0x27] @ ''NoneType'' @ [CHR 0x27] @ '' object has no attribute ''
     @ [CHR 0x27] @ ''cursor'' @ [CHR 0x27]"

definition run_sql :: "'db driver \<Rightarrow> 'db explorer \<Rightarrow> string \<Rightarrow> (exn + cursor) \<times> 'db explorer" where
  \<comment> \<open>\<^verbatim>\<open>cursor = self.connection.cursor(); cursor.execute(sql)\<close>\<close>
  "run_sql drv self sql =
     (case connection self of
        None \<Rightarrow> (Inl no_cursor_attr, self)
      | Some c \<Rightarrow>
          (case drv_execute drv c sql of (r, c') \<Rightarrow> (r, self\<lparr>connection := Some c'\<rparr>)))"

definition commit :: "'db driver \<Rightarrow> 'db explorer \<Rightarrow> exn option \<times> 'db explorer" where
  \<comment> \<open>\<^verbatim>\<open>self.connection.commit()\<close>, reached only with a connection\<close>
  "commit drv self =
     (case connection self of
        None \<Rightarrow> (Some no_cursor_attr, self)
      | Some c \<Rightarrow>
          (case drv_commit drv c of (r, c') \<Rightarrow> (r, self\<lparr>connection := Some c'\<rparr>)))"

section \<open>execute\_query\<close>

datatype query_result =
    Select "string list" "(string \<times> pyval) list list" int
      \<comment> \<open>\<^verbatim>\<open>"type": "SELECT"\<close> with \<^verbatim>\<open>columns\<close>, \<^verbatim>\<open>rows\<close>, \<^verbatim>\<open>row_count\<close>\<close>
  | Update int
      \<comment> \<open>\<^verbatim>\<open>"type": "UPDATE"\<close> with \<^verbatim>\<open>affected_rows\<close>\<close>
  | Error string
      \<comment> \<open>\<^verbatim>\<open>"type": "ERROR"\<close> with \<^verbatim>\<open>error\<close>\<close>

fun convert_cell :: "pyval \<Rightarrow> pyval" where
  \<comment> \<open>lines 246 to 249\<close>
  "convert_cell (PyBytes b) = PyStr (''<binary data, '' @ str_nat (length b) @ '' bytes>'')"
| "convert_cell (PyByteArray b) = PyStr (''<binary data, '' @ str_nat (length b) @ '' bytes>'')"
| "convert_cell v = v"

fun row_dict_loop ::
  "string list \<Rightarrow> pyval list \<Rightarrow> (string \<times> pyval) list \<Rightarrow> exn + (string \<times> pyval) list" where
  \<comment> \<open>\<^verbatim>\<open>for i, col in enumerate(columns): row_dict[col] = ... row[i] ...\<close>; the row is
      consumed in step with the columns, and \<^verbatim>\<open>row[i]\<close> raises on a row that is
      too short. A dict keeps the position of a key that is assigned again.\<close>
  "row_dict_loop [] row row_dict = Inr row_dict"
| "row_dict_loop (col # cols) [] row_dict = Inl ''tuple index out of range''"
| "row_dict_loop (col # cols) (v # vs) row_dict =
     row_dict_loop cols vs (AList.update col (convert_cell v) row_dict)"

fun results_loop ::
  "string list \<Rightarrow> pyval list list \<Rightarrow> (string \<times> pyval) list list
     \<Rightarrow> exn + (string \<times> pyval) list list" where
  \<comment> \<open>\<^verbatim>\<open>for row in rows: ... results.append(row_dict)\<close>\<close>
  "results_loop cols [] results = Inr results"
| "results_loop cols (row # rows) results =
     (case row_dict_loop cols row [] of
        Inl e \<Rightarrow> Inl e
      | Inr row_dict \<Rightarrow> results_loop cols rows (results @ [row_dict]))"

definition truthy :: "string list option \<Rightarrow> bool" where
  \<comment> \<open>\<^verbatim>\<open>if cursor.description:\<close> neither \<^verbatim>\<open>None\<close> nor empty\<close>
  "truthy d = (case d of None \<Rightarrow> False | Some cols \<Rightarrow> cols \<noteq> [])"

definition query_failed :: "exn \<Rightarrow> 'db explorer \<Rightarrow> query_result \<times> 'db explorer" where
  \<comment> \<open>the handler, lines 266 to 268\<close>
  "query_failed e self = (Error e, print (''Error executing query: '' @ e) self)"

definition execute_query :: "'db driver \<Rightarrow> 'db explorer \<Rightarrow> string \<Rightarrow> query_result \<times> 'db explorer" where
  "execute_query drv self query =
     (case run_sql drv self query of
        (Inl e, self1) \<Rightarrow> query_failed e self1
      | (Inr cursor, self1) \<Rightarrow>
          if truthy (description cursor) then
            (let columns = the (description cursor) in
             case fetchall cursor of
               Inl e \<Rightarrow> query_failed e self1
             | Inr rows \<Rightarrow>
                 (case results_loop columns rows [] of
                    Inl e \<Rightarrow> query_failed e self1
                  | Inr results \<Rightarrow> (Select columns results (int (length results)), self1)))
          else
            (case commit drv self1 of
               (Some e, self2) \<Rightarrow> query_failed e self2
             | (None, self2) \<Rightarrow> (Update (rowcount cursor), self2)))"

section \<open>Schema introspection\<close>

definition tables_sql :: string where
  "tables_sql =
     ''SELECT name FROM sqlite_master WHERE type='table' AND name NOT LIKE 'sqlite_%'' @ [CHR 0x27]"

fun first_cells :: "pyval list list \<Rightarrow> exn + pyval list" where
  \<comment> \<open>\<^verbatim>\<open>[table[0] for table in cursor.fetchall()]\<close>\<close>
  "first_cells [] = Inr []"
| "first_cells ([] # ts) = Inl ''tuple index out of range''"
| "first_cells ((v # vs) # ts) =
     (case first_cells ts of Inl e \<Rightarrow> Inl e | Inr tables \<Rightarrow> Inr (v # tables))"

definition tables_failed :: "exn \<Rightarrow> 'db explorer \<Rightarrow> pyval list \<times> 'db explorer" where
  "tables_failed e self = ([], print (''Error retrieving tables: '' @ e) self)"

definition get_tables :: "'db driver \<Rightarrow> 'db explorer \<Rightarrow> pyval list \<times> 'db explorer" where
  "get_tables drv self =
     (case run_sql drv self tables_sql of
        (Inl e, self1) \<Rightarrow> tables_failed e self1
      | (Inr cursor, self1) \<Rightarrow>
          (case fetchall cursor of
             Inl e \<Rightarrow> tables_failed e self1
           | Inr fetched \<Rightarrow>
               (case first_cells fetched of
                  Inl e \<Rightarrow> tables_failed e self1
                | Inr tables \<Rightarrow> (tables, self1))))"

record column =
  col_name :: pyval
  col_type :: pyval
  col_not_null :: bool
  col_default :: pyval
  col_primary_key :: bool

record foreign_key =
  fk_column :: pyval
  fk_ref_table :: pyval
  fk_ref_column :: pyval

record table_structure =
  columns :: "column list"
  foreign_keys :: "foreign_key list"

definition unpack_error :: "nat \<Rightarrow> nat \<Rightarrow> exn" where
  \<comment> \<open>the text of the \<^verbatim>\<open>ValueError\<close> of a tuple assignment with \<open>n\<close> targets
      and \<open>k\<close> values\<close>
  "unpack_error n k =
     (if k < n
      then ''not enough values to unpack (expected '' @ str_nat n @ '', got '' @ str_nat k @ '')''
      else ''too many values to unpack (expected '' @ str_nat n @ '')'')"

fun column_of :: "pyval list \<Rightarrow> exn + column" where
  \<comment> \<open>\<^verbatim>\<open>col_id, name, type_name, not_null, default_value, is_pk = col\<close>\<close>
  "column_of [col_id, name, type_name, not_null, default_value, is_pk] =
     Inr \<lparr>col_name = name, col_type = type_name, col_not_null = py_eq_one not_null,
          col_default = default_value, col_primary_key = py_eq_one is_pk\<rparr>"
| "column_of col = Inl (unpack_error 6 (length col))"

fun foreign_key_of :: "pyval list \<Rightarrow> exn + foreign_key" where
  \<comment> \<open>\<^verbatim>\<open>id, seq, ref_table, from_col, to_col, on_update, on_delete, match = fk\<close>\<close>
  "foreign_key_of [fk_id, seq, ref_table, from_col, to_col, on_update, on_delete, match] =
     Inr \<lparr>fk_column = from_col, fk_ref_table = ref_table, fk_ref_column = to_col\<rparr>"
| "foreign_key_of fk = Inl (unpack_error 8 (length fk))"

fun append_each :: "('a \<Rightarrow> exn + 'b) \<Rightarrow> 'a list \<Rightarrow> 'b list \<Rightarrow> exn + 'b list" where
  \<comment> \<open>\<^verbatim>\<open>for x in xs: ... acc.append(f(x))\<close>, left at the first exception\<close>
  "append_each f [] acc = Inr acc"
| "append_each f (x # xs) acc =
     (case f x of Inl e \<Rightarrow> Inl e | Inr y \<Rightarrow> append_each f xs (acc @ [y]))"

definition structure_failed ::
  "pyval \<Rightarrow> exn \<Rightarrow> 'db explorer \<Rightarrow> table_structure \<times> 'db explorer" where
  \<comment> \<open>the handler, lines 169 to 171\<close>
  "structure_failed table_name e self =
     (\<lparr>columns = [], foreign_keys = []\<rparr>,
      print (''Error retrieving structure for table '' @ py_str table_name @ '': '' @ e) self)"

definition get_table_structure ::
  "'db driver \<Rightarrow> 'db explorer \<Rightarrow> pyval \<Rightarrow> table_structure \<times> 'db explorer" where
  "get_table_structure drv self table_name =
     (case run_sql drv self (''PRAGMA table_info('' @ py_str table_name @ '')'') of
        (Inl e, self1) \<Rightarrow> structure_failed table_name e self1
      | (Inr cursor, self1) \<Rightarrow>
     (case fetchall cursor of
        Inl e \<Rightarrow> structure_failed table_name e self1
      | Inr columns_info \<Rightarrow>
     (case append_each column_of columns_info [] of
        Inl e \<Rightarrow> structure_failed table_name e self1
      | Inr cols \<Rightarrow>
     (case run_sql drv self1 (''PRAGMA foreign_key_list('' @ py_str table_name @ '')'') of
        (Inl e, self2) \<Rightarrow> structure_failed table_name e self2
      | (Inr cursor2, self2) \<Rightarrow>
     (case fetchall cursor2 of
        Inl e \<Rightarrow> structure_failed table_name e self2
      | Inr fk_rows \<Rightarrow>
     (case append_each foreign_key_of fk_rows [] of
        Inl e \<Rightarrow> structure_failed table_name e self2
      | Inr fkeys \<Rightarrow> (\<lparr>columns = cols, foreign_keys = fkeys\<rparr>, self2)))))))"

section \<open>The schema description\<close>

definition basename :: "string \<Rightarrow> string" where
  \<comment> \<open>\<^verbatim>\<open>os.path.basename\<close> on POSIX: what follows the last slash\<close>
  "basename p = rev (takeWhile (\<lambda>c. c \<noteq> CHR ''/'') (rev p))"

definition column_line :: "column \<Rightarrow> string" where
  \<comment> \<open>lines 204 to 213\<close>
  "column_line col =
     (let attributes =
            (if col_primary_key col then [''PRIMARY KEY''] else [])
            @ (if col_not_null col then [''NOT NULL''] else [])
            @ (if col_default col \<noteq> PyNone then [''DEFAULT '' @ py_str (col_default col)] else []);
          attr_str = (if attributes \<noteq> [] then '' ('' @ join '', '' attributes @ '')'' else [])
      in ''  - '' @ py_str (col_name col) @ '': '' @ py_str (col_type col) @ attr_str
           @ ''\<newline>'')"

definition foreign_key_line :: "foreign_key \<Rightarrow> string" where
  "foreign_key_line fk =
     ''  - '' @ py_str (fk_column fk) @ '' -> '' @ py_str (fk_ref_table fk)
       @ ''('' @ py_str (fk_ref_column fk) @ '')'' @ ''\<newline>''"

definition structure_text :: "pyval \<Rightarrow> table_structure \<Rightarrow> string" where
  \<comment> \<open>what lines 199 to 219 add to the description for one table\<close>
  "structure_text table_name structure =
     ''Table: '' @ py_str table_name @ ''\<newline>''
     @ ''Columns:\<newline>''
     @ concat (map column_line (columns structure))
     @ (if foreign_keys structure \<noteq> []
        then ''Foreign Keys:\<newline>'' @ concat (map foreign_key_line (foreign_keys structure))
        else [])"

definition fetchone_first :: "cursor \<Rightarrow> exn + pyval" where
  \<comment> \<open>\<^verbatim>\<open>cursor.fetchone()[0]\<close>: \<^verbatim>\<open>fetchone\<close> gives \<^verbatim>\<open>None\<close> when there is no row\<close>
  "fetchone_first cursor =
     (case fetchall cursor of
        Inl e \<Rightarrow> Inl e
      | Inr [] \<Rightarrow> Inl ([CHR 0x27] @ ''NoneType'' @ [CHR 0x27] @ '' object is not subscriptable'')
      | Inr ([] # _) \<Rightarrow> Inl ''tuple index out of range''
      | Inr ((v # _) # _) \<Rightarrow> Inr v)"

definition count_rows :: "'db driver \<Rightarrow> 'db explorer \<Rightarrow> pyval \<Rightarrow> (exn + pyval) \<times> 'db explorer" where
  \<comment> \<open>lines 222 to 224, outside every \<^verbatim>\<open>try\<close>\<close>
  "count_rows drv self table_name =
     (case run_sql drv self (''SELECT COUNT(*) FROM '' @ py_str table_name) of
        (Inl e, self1) \<Rightarrow> (Inl e, self1)
      | (Inr cursor, self1) \<Rightarrow> (fetchone_first cursor, self1))"

fun schema_loop ::
  "'db driver \<Rightarrow> pyval list \<Rightarrow> string \<Rightarrow> 'db explorer \<Rightarrow> (exn + string) \<times> 'db explorer" where
  \<comment> \<open>\<^verbatim>\<open>for table_name in tables:\<close> of \<^verbatim>\<open>get_schema_for_ollama\<close>; an exception
      of the row count leaves the loop and the method\<close>
  "schema_loop drv [] descr self = (Inr descr, self)"
| "schema_loop drv (table_name # tables) descr self =
     (case get_table_structure drv self table_name of
        (structure, self1) \<Rightarrow>
          (case count_rows drv self1 table_name of
             (Inl e, self2) \<Rightarrow> (Inl e, self2)
           | (Inr count, self2) \<Rightarrow>
               schema_loop drv tables
                 (descr @ structure_text table_name structure
                    @ ''Row count: '' @ py_str count @ ''\<newline>\<newline>'')
                 self2))"

definition get_schema_for_ollama ::
  "'db driver \<Rightarrow> 'db explorer \<Rightarrow> (exn + string) \<times> 'db explorer" where
  "get_schema_for_ollama drv self =
     (case get_tables drv self of
        (tables, self1) \<Rightarrow>
          schema_loop drv tables
            (''Database: '' @ basename (db_file self) @ ''\<newline>\<newline>'') self1)"

section \<open>format\_table\<close>

definition cell_text :: "(string \<times> pyval) list \<Rightarrow> string \<Rightarrow> string" where
  \<comment> \<open>\<^verbatim>\<open>str(row.get(col, ""))\<close>\<close>
  "cell_text row col = py_str (case map_of row col of None \<Rightarrow> PyStr [] | Some v \<Rightarrow> v)"

definition col_width :: "(string \<times> pyval) list list \<Rightarrow> string \<Rightarrow> nat" where
  \<comment> \<open>\<^verbatim>\<open>col_widths[col]\<close>, line 313; the inner \<^verbatim>\<open>max\<close> runs over a list of rows
      that is not empty there\<close>
  "col_width rws col = max (length col) (fold max (map (\<lambda>row. length (cell_text row col)) rws) 0)"

definition format_table :: "query_result \<Rightarrow> string" where
  "format_table data =
     (case data of
        Select cols rws n \<Rightarrow>
          if rws = [] \<or> cols = [] then ''No data to display''
          else
            (let separator =
                   ''+-'' @ join ''-+-'' (map (\<lambda>col. replicate (col_width rws col) (CHR ''-'')) cols)
                   @ ''-+'';
                 header =
                   ''| '' @ join '' | '' (map (\<lambda>col. ljust col (col_width rws col)) cols) @ '' |'';
                 formatted_rows =
                   map (\<lambda>row. ''| ''
                          @ join '' | '' (map (\<lambda>col. ljust (cell_text row col) (col_width rws col)) cols)
                          @ '' |'') rws
             in join ''\<newline>'' ([separator, header, separator] @ formatted_rows @ [separator]))
      | Update n \<Rightarrow> ''No data to display''
      | Error e \<Rightarrow> ''No data to display'')"

section \<open>The generation client\<close>

text \<open>
  \<^verbatim>\<open>requests\<close> and the backend are parameters as well: \<open>post url payload timeout\<close>
  raises (connection refused, timeout, ...) or yields a response, whose
  \<^verbatim>\<open>raise_for_status()\<close> and \<^verbatim>\<open>json()\<close> may raise in turn.
\<close>

datatype json =
    JNull
  | JBool bool
  | JInt int
  | JFloat string
  | JStr string
  | JArr "json list"
  | JObj "(string \<times> json) list"

record payload =
  p_model :: string
  p_prompt :: string
  p_stream :: bool

record response =
  raise_for_status :: "exn option"
  json_body :: "exn + json"

type_synonym http = "string \<Rightarrow> payload \<Rightarrow> nat \<Rightarrow> exn + response"

record ollama_client =
  model_name :: string
  base_url :: string

fun type_name_of :: "json \<Rightarrow> string" where
  "type_name_of JNull = ''NoneType''"
| "type_name_of (JBool b) = ''bool''"
| "type_name_of (JInt i) = ''int''"
| "type_name_of (JFloat r) = ''float''"
| "type_name_of (JStr s) = ''str''"
| "type_name_of (JArr xs) = ''list''"
| "type_name_of (JObj kvs) = ''dict''"

definition no_attribute :: "json \<Rightarrow> string \<Rightarrow> exn" where
  \<comment> \<open>the text of the \<^verbatim>\<open>AttributeError\<close>\<close>
  "no_attribute v attr =
     [CHR 0x27] @ type_name_of v @ [CHR 0x27] @ '' object has no attribute ''
       @ [CHR 0x27] @ attr @ [CHR 0x27]"

fun get_response :: "json \<Rightarrow> exn + json" where
  \<comment> \<open>\<^verbatim>\<open>response.json().get("response", "")\<close>\<close>
  "get_response (JObj kvs) =
     Inr (case map_of kvs ''response'' of None \<Rightarrow> JStr [] | Some v \<Rightarrow> v)"
| "get_response v = Inl (no_attribute v ''get'')"

fun py_len :: "json \<Rightarrow> exn + nat" where
  \<comment> \<open>\<^verbatim>\<open>len(result)\<close>\<close>
  "py_len (JStr s) = Inr (length s)"
| "py_len (JArr xs) = Inr (length xs)"
| "py_len (JObj kvs) = Inr (length kvs)"
| "py_len v = Inl (''object of type '' @ [CHR 0x27] @ type_name_of v @ [CHR 0x27] @ '' has no len()'')"

definition generate_failed :: "exn \<Rightarrow> string list \<Rightarrow> json \<times> string list" where
  \<comment> \<open>the handler, lines 87 to 89\<close>
  "generate_failed e out = (JStr (''Error: '' @ e), out @ [''Error calling Ollama API: '' @ e])"

definition generate :: "http \<Rightarrow> ollama_client \<Rightarrow> string \<Rightarrow> string list \<Rightarrow> json \<times> string list" where
  "generate post self prompt out =
     (let out1 = out @ [''Sending prompt to Ollama model '' @ [CHR 0x27] @ model_name self
                          @ [CHR 0x27] @ ''...''];
          url = base_url self @ ''/api/generate'';
          pl = \<lparr>p_model = model_name self, p_prompt = prompt, p_stream = False\<rparr>
      in case post url pl 60 of
           Inl e \<Rightarrow> generate_failed e out1
         | Inr resp \<Rightarrow>
        (case raise_for_status resp of
           Some e \<Rightarrow> generate_failed e out1
         | None \<Rightarrow>
        (case json_body resp of
           Inl e \<Rightarrow> generate_failed e out1
         | Inr body \<Rightarrow>
        (case get_response body of
           Inl e \<Rightarrow> generate_failed e out1
         | Inr result \<Rightarrow>
        (case py_len result of
           Inl e \<Rightarrow> generate_failed e out1
         | Inr n \<Rightarrow>
             (result, out1 @ [''Received response ('' @ str_nat n @ '' characters)'']))))))"

definition build_prompt :: "string \<Rightarrow> string \<Rightarrow> string" where
  \<comment> \<open>the f-string of lines 272 to 284\<close>
  "build_prompt schema_description query =
     ''You are a database expert who converts natural language questions into precise SQL queries.\<newline>''
     @ ''    \<newline>''
     @ ''    Here is the schema information for the SQLite database:\<newline>''
     @ ''    ```\<newline>''
     @ ''    '' @ schema_description @ ''\<newline>''
     @ ''    ```\<newline>''
     @ ''    \<newline>''
     @ ''    User question: \"'' @ query @ ''\"\<newline>''
     @ ''    \<newline>''
     @ ''    Based on the schema above, write a single SQL query that answers this question.\<newline>''
     @ ''    Only return the SQL query with no additional explanations or comments.\<newline>''
     @ ''    The SQL query must be valid SQLite syntax.\<newline>''
     @ ''    ''"

definition natural_language_to_sql ::
  "http \<Rightarrow> ollama_client \<Rightarrow> string \<Rightarrow> string \<Rightarrow> string list \<Rightarrow> (exn + string) \<times> string list" where
  \<comment> \<open>\<^verbatim>\<open>.strip()\<close> exists on a \<^verbatim>\<open>str\<close> only; on anything else the
      \<^verbatim>\<open>AttributeError\<close> leaves the function\<close>
  "natural_language_to_sql post ollama_client schema_description query out =
     (let prompt = build_prompt schema_description query;
          out1 = out @ [''\<newline>Converting natural language to SQL using Ollama...'']
      in case generate post ollama_client prompt out1 of
           (JStr sql_query, out2) \<Rightarrow> (Inr (sanitize sql_query), out2)
         | (v, out2) \<Rightarrow> (Inl (no_attribute v ''strip''), out2))"

section \<open>Notions used in the statements\<close>

fun is_binary :: "pyval \<Rightarrow> bool" where
  \<comment> \<open>\<^verbatim>\<open>isinstance(v, (bytes, bytearray))\<close>\<close>
  "is_binary (PyBytes b) = True"
| "is_binary (PyByteArray b) = True"
| "is_binary v = False"

fun byte_length :: "pyval \<Rightarrow> nat" where
  "byte_length (PyBytes b) = length b"
| "byte_length (PyByteArray b) = length b"
| "byte_length v = 0"





definition same_database :: "'db explorer \<Rightarrow> 'db explorer \<Rightarrow> bool" where
  \<comment> \<open>two states of the explorer that differ at most in what has been printed\<close>
  "same_database a b = (db_file a = db_file b \<and> connection a = connection b)"

section \<open>The description as the specification divides it\<close>

text \<open>
  The specification has two components where the code has one method: an introspector
  that captures a snapshot of the schema (per table its name, its structure and its row
  count) and a builder that renders a snapshot as text. \<open>build_description\<close> is that
  builder, a function of the file name and the snapshot alone; \<open>introspect\<close> is the
  capture, which asks the database in the order in which \<^verbatim>\<open>get_schema_for_ollama\<close>
  does.
\<close>

record table_descriptor =
  td_name :: pyval
  td_structure :: table_structure
  td_row_count :: pyval

definition table_text :: "table_descriptor \<Rightarrow> string" where
  "table_text td =
     structure_text (td_name td) (td_structure td)
     @ ''Row count: '' @ py_str (td_row_count td) @ ''\<newline>\<newline>''"

definition build_description :: "string \<Rightarrow> table_descriptor list \<Rightarrow> string" where
  "build_description file snapshot =
     ''Database: '' @ basename file @ ''\<newline>\<newline>'' @ concat (map table_text snapshot)"

fun introspect_loop ::
  "'db driver \<Rightarrow> pyval list \<Rightarrow> 'db explorer \<Rightarrow> (exn + table_descriptor list) \<times> 'db explorer" where
  "introspect_loop drv [] self = (Inr [], self)"
| "introspect_loop drv (table_name # tables) self =
     (case get_table_structure drv self table_name of
        (structure, self1) \<Rightarrow>
          (case count_rows drv self1 table_name of
             (Inl e, self2) \<Rightarrow> (Inl e, self2)
           | (Inr count, self2) \<Rightarrow>
               (case introspect_loop drv tables self2 of
                  (Inl e, self3) \<Rightarrow> (Inl e, self3)
                | (Inr snapshot, self3) \<Rightarrow>
                    (Inr (\<lparr>td_name = table_name, td_structure = structure,
                            td_row_count = count\<rparr> # snapshot), self3))))"

definition introspect ::
  "'db driver \<Rightarrow> 'db explorer \<Rightarrow> (exn + table_descriptor list) \<times> 'db explorer" where
  "introspect drv self =
     (case get_tables drv self of (tables, self1) \<Rightarrow> introspect_loop drv tables self1)"

section \<open>A small database for the examples\<close>

text \<open>
  A stand-in for \<^verbatim>\<open>sqlite3\<close> in the examples: a database with the table
  \<^verbatim>\<open>t(x INTEGER, b BLOB)\<close> and, when \<open>with_order\<close> is set, a table named
  \<^verbatim>\<open>order\<close>, a keyword that the statements built from the bare table name cannot
  name. It answers the statements of the examples as \<^verbatim>\<open>sqlite3\<close> answers them and
  rejects every other text.
\<close>

record demo_db =
  with_order :: bool
  t_rows :: "(int \<times> char list) list"

definition rowset :: "string list \<Rightarrow> pyval list list \<Rightarrow> exn + cursor" where
  "rowset cols fetched = Inr \<lparr>description = Some cols, fetchall = Inr fetched, rowcount = - 1\<rparr>"

definition near_order :: exn where
  "near_order = ''near \"order\": syntax error''"

definition demo_execute :: "demo_db \<Rightarrow> string \<Rightarrow> (exn + cursor) \<times> demo_db" where
  "demo_execute db sql =
     (if sql = ''UPDATE t SET x=1'' then
        (Inr \<lparr>description = None, fetchall = Inr [], rowcount = int (length (t_rows db))\<rparr>,
         db\<lparr>t_rows := map (\<lambda>(x, b). (1, b)) (t_rows db)\<rparr>)
      else if sql = ''SELECT x, b FROM t'' then
        (rowset [''x'', ''b''] (map (\<lambda>(x, b). [PyInt x, PyBytes b]) (t_rows db)), db)
      else if sql = ''SELECT x FROM t WHERE x > 100'' then
        (rowset [''x''] (map (\<lambda>(x, b). [PyInt x]) (filter (\<lambda>(x, b). 100 < x) (t_rows db))), db)
      else if sql = tables_sql then
        (rowset [''name'']
           ((if with_order db then [[PyStr ''order'']] else []) @ [[PyStr ''t'']]), db)
      else if sql = ''PRAGMA table_info(t)'' then
        (rowset [''cid'', ''name'', ''type'', ''notnull'', ''dflt_value'', ''pk'']
           [[PyInt 0, PyStr ''x'', PyStr ''INTEGER'', PyInt 0, PyNone, PyInt 0],
            [PyInt 1, PyStr ''b'', PyStr ''BLOB'', PyInt 0, PyNone, PyInt 0]], db)
      else if sql = ''PRAGMA foreign_key_list(t)'' then
        (rowset [''id'', ''seq'', ''table'', ''from'', ''to'', ''on_update'', ''on_delete'', ''match'']
           [], db)
      else if sql = ''SELECT COUNT(*) FROM t'' then
        (rowset [''COUNT(*)''] [[PyInt (int (length (t_rows db)))]], db)
      else if sql = ''SELEC * FORM t'' then
        (Inl ''near \"SELEC\": syntax error'', db)
      else if sql = ''PRAGMA table_info(order)'' \<or> sql = ''SELECT COUNT(*) FROM order'' then
        (Inl near_order, db)
      else (Inl ''syntax error'', db))"

definition demo :: "demo_db driver" where
  "demo = \<lparr>drv_execute = demo_execute, drv_commit = (\<lambda>db. (None, db))\<rparr>"

definition demo_explorer :: "demo_db \<Rightarrow> demo_db explorer" where
  "demo_explorer db = \<lparr>db_file = ''/data/test.db'', connection = Some db, stdout = []\<rparr>"

definition three_rows :: demo_db where
  "three_rows = \<lparr>with_order = False,
     t_rows = [(7, ''0123456789ab''), (8, ''''), (9, ''xyz'')]\<rparr>"

definition two_rows :: demo_db where
  "two_rows = \<lparr>with_order = False, t_rows = [(7, ''0123456789ab''), (8, [])]\<rparr>"

definition order_db :: demo_db where
  "order_db = \<lparr>with_order = True, t_rows = [(7, ''0123456789ab'')]\<rparr>"

definition read_timeout :: exn where
  "read_timeout = ''HTTPConnectionPool(host='localhost', port=11434): Read timed out. (read timeout=60)''"

definition timeout_post :: http where
  \<comment> \<open>a backend that never answers within the time allowed\<close>
  "timeout_post url pl t = Inl read_timeout"

definition demo_client :: ollama_client where
  "demo_client = \<lparr>model_name = ''llama3'', base_url = ''http://localhost:11434''\<rparr>"




definition reply :: "json \<Rightarrow> http" where
  \<comment> \<open>a backend that answers every request with status 200 and the given body\<close>
  "reply body url pl t = Inr \<lparr>raise_for_status = None, json_body = Inr body\<rparr>"

definition not_a_database :: "demo_db driver" where
  \<comment> \<open>a file that \<^verbatim>\<open>sqlite3.connect\<close> opens and no statement can read\<close>
  "not_a_database =
     \<lparr>drv_execute = (\<lambda>db sql. (Inl ''file is not a database'', db)),
      drv_commit = (\<lambda>db. (None, db))\<rparr>"

section \<open>Properties of the sanitizer\<close>

lemma prefix_strip_inner: "prefix (rev (dropWhile P (rev d))) d"
proof -
  have "suffix (dropWhile P (rev d)) (rev d)" by (rule suffix_dropWhile)
  then show ?thesis by (simp add: suffix_to_prefix)
qed

lemma sublist_strip: "sublist (strip s) s"
proof -
  have a: "sublist (strip s) (dropWhile is_space s)"
    unfolding strip_def by (rule prefix_imp_sublist [OF prefix_strip_inner])
  have b: "sublist (dropWhile is_space s) s"
    by (rule suffix_imp_sublist [OF suffix_dropWhile])
  from a b show ?thesis by (rule sublist_order.order.trans)
qed

lemma fence_free_strip:
  assumes "fence_free s"
  shows "\<not> prefix ''```'' (strip s)" and "\<not> suffix ''```'' (strip s)"
    and "fence_free (strip s)" and "\<not> prefix ''```sql'' (strip s)"
proof -
  have n: "\<not> sublist ''```'' (strip s)"
    using assms sublist_strip [of s] unfolding fence_free_def
    by (blast intro: sublist_order.order.trans)
  show p: "\<not> prefix ''```'' (strip s)" using n prefix_imp_sublist by blast
  show "\<not> suffix ''```'' (strip s)" using n suffix_imp_sublist by blast
  show "fence_free (strip s)" using n by (simp add: fence_free_def)
  have "prefix ''```'' ''```sql''" by simp
  with p show "\<not> prefix ''```sql'' (strip s)" by (blast intro: prefix_order.trans)
qed

lemma dropWhile_strip: "dropWhile is_space (strip s) = strip s"
proof (cases "strip s = []")
  case True
  then show ?thesis by simp
next
  case False
  define d where "d = dropWhile is_space s"
  have p: "prefix (strip s) d" unfolding strip_def d_def by (rule prefix_strip_inner)
  with False have dne: "d \<noteq> []" by auto
  from p False have "hd (strip s) = hd d" by (auto simp: prefix_def)
  moreover have "\<not> is_space (hd d)" using dne unfolding d_def by (rule hd_dropWhile)
  ultimately show ?thesis by (simp add: dropWhile_eq_self_iff)
qed

lemma strip_idem: "strip (strip s) = strip s"
proof -
  have "strip (strip s) = rev (dropWhile is_space (rev (strip s)))"
    by (simp add: strip_def [of "strip s"] dropWhile_strip)
  also have "\<dots> = strip s" by (simp add: strip_def)
  finally show ?thesis .
qed

lemma rfind_opt_bound: "rfind_opt sub s = Some i \<Longrightarrow> i + length sub \<le> length s"
proof (induction s arbitrary: i)
  case Nil
  then show ?case by (simp split: if_splits)
next
  case (Cons c cs)
  then show ?case
    by (auto split: option.splits if_splits dest: prefix_length_le)
qed

lemma rfind_opt_suffix: "suffix sub s \<Longrightarrow> rfind_opt sub s = Some (length s - length sub)"
proof (induction s)
  case Nil
  then show ?case by simp
next
  case (Cons c cs)
  show ?case
  proof (cases "sub = c # cs")
    case True
    have "rfind_opt sub cs = None"
    proof (cases "rfind_opt sub cs")
      case (Some i)
      from rfind_opt_bound [OF this] True show ?thesis by simp
    qed simp
    with True show ?thesis by simp
  next
    case False
    with Cons.prems have s: "suffix sub cs" by (simp add: suffix_Cons)
    from Cons.IH [OF s] suffix_length_le [OF s] show ?thesis by (simp add: Suc_diff_le)
  qed
qed

lemma replace_first_prefix:
  "prefix old s \<Longrightarrow> replace_first old new s = new @ drop (length old) s"
  by (cases s) auto

lemma sanitize_unfold:
  "sanitize raw =
     (let t = strip raw;
          u = (if prefix ''```sql'' t then strip (drop 6 t)
               else if prefix ''```'' t then strip (drop 3 t) else t)
      in if suffix ''```'' u then strip (take (length u - 3) u) else u)"
proof -
  have l3: "length ''```'' = 3" and l6: "length ''```sql'' = 6" by simp_all
  have r: "\<And>u. suffix ''```'' u \<Longrightarrow> slice_to u (rfind u ''```'') = take (length u - 3) u"
    by (simp only: slice_to_def rfind_def rfind_opt_suffix l3) simp
  have r6: "\<And>t. prefix ''```sql'' t \<Longrightarrow> replace_first ''```sql'' [] t = drop 6 t"
    by (simp only: replace_first_prefix l6) simp
  have r3: "\<And>t. prefix ''```'' t \<Longrightarrow> replace_first ''```'' [] t = drop 3 t"
    by (simp only: replace_first_prefix l3) simp
  show ?thesis
    unfolding sanitize_def Let_def startswith_def endswith_def
    by (auto simp only: r r6 r3 split: if_splits)
qed

lemma sanitize_fence_free: "fence_free s \<Longrightarrow> sanitize s = strip s"
  by (simp add: sanitize_unfold Let_def fence_free_strip)

lemma sanitize_examples:
  "sanitize ''```sql\<newline>SELECT 1\<newline>```'' = ''SELECT 1''"
  "sanitize ''  SELECT 1  '' = ''SELECT 1''"
  by code_simp+

text \<open>
  C3 at a fence with a language hint other than \<^verbatim>\<open>sql\<close>. The sanitizer of the
  specification removes the opener with its hint and the closing fence, and
  \<^verbatim>\<open>SELECT 1\<close> is left. The code removes three backquotes and leaves the hint
  \<^verbatim>\<open>python\<close> in front of the query; of the hint \<^verbatim>\<open>sqlite\<close> it removes the
  first three letters with the fence and leaves \<^verbatim>\<open>ite\<close>.
\<close>

theorem sanitize_keeps_other_hint:
  "sanitize ''```python\<newline>SELECT 1\<newline>```'' = ''python\<newline>SELECT 1''
   \<and> sanitize_spec ''```python\<newline>SELECT 1\<newline>```'' = ''SELECT 1''
   \<and> sanitize ''```sqlite\<newline>SELECT 1\<newline>```'' = ''ite\<newline>SELECT 1''
   \<and> sanitize_spec ''```sqlite\<newline>SELECT 1\<newline>```'' = ''SELECT 1''"
proof -
  have a: "sanitize ''```python\<newline>SELECT 1\<newline>```'' = ''python\<newline>SELECT 1''"
    by code_simp
  have b: "sanitize_spec ''```python\<newline>SELECT 1\<newline>```'' = ''SELECT 1''"
    by code_simp
  have c: "sanitize ''```sqlite\<newline>SELECT 1\<newline>```'' = ''ite\<newline>SELECT 1''"
    by code_simp
  have d: "sanitize_spec ''```sqlite\<newline>SELECT 1\<newline>```'' = ''SELECT 1''"
    by code_simp
  from a b c d show ?thesis by (intro conjI)
qed

text \<open>
  C9. On a text that holds no code fence, sanitizing is idempotent: sanitizing the
  sanitized text changes nothing. What one pass does to such a text is to trim it, so a
  fence-free text without surrounding white space is returned as it is.
\<close>

theorem sanitize_fence_free_trims:
  "fence_free s \<Longrightarrow>
     sanitize s = strip s \<and> sanitize (sanitize s) = sanitize s
     \<and> (strip s = s \<longrightarrow> sanitize s = s)"
  by (simp add: sanitize_fence_free fence_free_strip strip_idem)

theorem sanitize_fence_free_trims_witness:
  "fence_free ''  SELECT 1  '' \<and> sanitize ''  SELECT 1  '' = ''SELECT 1''
   \<and> sanitize (sanitize ''  SELECT 1  '') = sanitize ''  SELECT 1  ''
   \<and> fence_free ''SELECT 1'' \<and> sanitize ''SELECT 1'' = ''SELECT 1''"
proof -
  have h: "fence_free ''  SELECT 1  ''" by code_simp
  have s: "strip ''  SELECT 1  '' = ''SELECT 1''" by code_simp
  have h2: "fence_free ''SELECT 1''" by code_simp
  have s2: "strip ''SELECT 1'' = ''SELECT 1''" by code_simp
  note t = sanitize_fence_free_trims [OF h]
  from t s have a: "sanitize ''  SELECT 1  '' = ''SELECT 1''" by simp
  from t have b: "sanitize (sanitize ''  SELECT 1  '') = sanitize ''  SELECT 1  ''" by blast
  note t2 = sanitize_fence_free_trims [OF h2]
  from t2 s2 have c: "sanitize ''SELECT 1'' = ''SELECT 1''" by simp
  from h h2 a b c show ?thesis by (intro conjI)
qed

section \<open>Properties of execute\_query and format\_table\<close>

lemma run_sql_Some:
  "connection self = Some c \<Longrightarrow> drv_execute drv c sql = (r, c1)
     \<Longrightarrow> run_sql drv self sql = (r, self\<lparr>connection := Some c1\<rparr>)"
  by (simp add: run_sql_def)

lemma commit_Some:
  "connection self = Some c \<Longrightarrow> drv_commit drv c = (r, c1)
     \<Longrightarrow> commit drv self = (r, self\<lparr>connection := Some c1\<rparr>)"
  by (simp add: commit_def)

text \<open>
  C1. When the driver executes the statement and reports no result-set shape (the
  cursor's description is \<^verbatim>\<open>None\<close> or empty) and the commit raises nothing,
  \<^verbatim>\<open>execute_query\<close> commits (the connection is left in the state after the
  commit) and returns the \<^verbatim>\<open>UPDATE\<close> result with the row count the driver
  reported.
\<close>

theorem execute_query_mutation:
  assumes "connection self = Some c"
    and "drv_execute drv c query = (Inr cur, c1)"
    and "\<not> truthy (description cur)"
    and "drv_commit drv c1 = (None, c2)"
  shows "execute_query drv self query = (Update (rowcount cur), self\<lparr>connection := Some c2\<rparr>)"
  using assms by (simp add: execute_query_def run_sql_Some commit_def)

lemma demo_update: "demo_execute three_rows ''UPDATE t SET x=1''
   = (Inr \<lparr>description = None, fetchall = Inr [], rowcount = 3\<rparr>,
         three_rows\<lparr>t_rows := [(1, ''0123456789ab''), (1, ''''), (1, ''xyz'')]\<rparr>)"
  by (simp add: demo_execute_def three_rows_def)

theorem execute_query_mutation_witness:
  "execute_query demo (demo_explorer three_rows) ''UPDATE t SET x=1''
     = (Update 3, demo_explorer (three_rows\<lparr>t_rows := [(1, ''0123456789ab''), (1, ''''), (1, ''xyz'')]\<rparr>))"
proof -
  have a: "connection (demo_explorer three_rows) = Some three_rows"
    by (simp add: demo_explorer_def)
  have b: "drv_execute demo three_rows ''UPDATE t SET x=1''
      = (Inr \<lparr>description = None, fetchall = Inr [], rowcount = 3\<rparr>,
         three_rows\<lparr>t_rows := [(1, ''0123456789ab''), (1, ''''), (1, ''xyz'')]\<rparr>)"
    by (simp add: demo_def demo_update)
  have c: "\<not> truthy (description \<lparr>description = None, fetchall = Inr [], rowcount = 3\<rparr>)"
    by (simp add: truthy_def)
  have d: "drv_commit demo (three_rows\<lparr>t_rows := [(1, ''0123456789ab''), (1, ''''), (1, ''xyz'')]\<rparr>)
      = (None, three_rows\<lparr>t_rows := [(1, ''0123456789ab''), (1, ''''), (1, ''xyz'')]\<rparr>)"
    by (simp add: demo_def)
  show ?thesis
    using execute_query_mutation [OF a b c d] by (simp add: demo_explorer_def)
qed

lemma results_loop_length:
  "results_loop cols fetched acc = Inr results \<Longrightarrow> length results = length acc + length fetched"
  by (induction fetched arbitrary: acc) (auto split: sum.splits)

lemma execute_query_SelectD:
  assumes "execute_query drv self query = (Select cols rws n, self')"
  shows "\<exists>c cur c1 fetched. connection self = Some c \<and> drv_execute drv c query = (Inr cur, c1)
          \<and> description cur = Some cols \<and> cols \<noteq> [] \<and> fetchall cur = Inr fetched
          \<and> results_loop cols fetched [] = Inr rws \<and> n = int (length rws)
          \<and> self' = self\<lparr>connection := Some c1\<rparr>"
  using assms
  by (auto simp: execute_query_def run_sql_def query_failed_def truthy_def Let_def
           split: option.splits prod.splits sum.splits if_splits)

text \<open>
  C10. Every \<^verbatim>\<open>SELECT\<close> result that \<^verbatim>\<open>execute_query\<close> returns carries a
  \<^verbatim>\<open>row_count\<close> equal to the number of entries of its \<^verbatim>\<open>rows\<close>.
\<close>

theorem row_count_is_length:
  "execute_query drv self query = (Select cols rws n, self') \<Longrightarrow> n = int (length rws)"
  by (drule execute_query_SelectD) blast

lemma convert_cell_not_binary: "\<not> is_binary (convert_cell v)"
  by (cases v) simp_all

lemma convert_cell_binary:
  "is_binary v \<Longrightarrow> convert_cell v = PyStr (''<binary data, '' @ str_nat (byte_length v) @ '' bytes>'')"
  by (cases v) simp_all

lemma update_values:
  "(k', v') \<in> set (AList.update k v al) \<Longrightarrow> v' = v \<or> (k', v') \<in> set al"
  by (induction al) (auto split: if_splits)

lemma row_dict_loop_values:
  "row_dict_loop cols row acc = Inr d \<Longrightarrow> (k, v) \<in> set d
     \<Longrightarrow> (k, v) \<in> set acc \<or> (\<exists>i < length cols. i < length row \<and> k = cols ! i \<and> v = convert_cell (row ! i))"
proof (induction cols row acc rule: row_dict_loop.induct)
  case (1 row row_dict)
  then show ?case by simp
next
  case (2 col cols row_dict)
  then show ?case by simp
next
  case (3 col cols v0 vs row_dict)
  from "3.prems" have "row_dict_loop cols vs (AList.update col (convert_cell v0) row_dict) = Inr d"
    by simp
  from "3.IH" [OF this "3.prems"(2)]
  show ?case
  proof
    assume "(k, v) \<in> set (AList.update col (convert_cell v0) row_dict)"
    then have "(k, v) \<in> set row_dict \<or> (k = col \<and> v = convert_cell v0)"
      by (induction row_dict) (auto split: if_splits)
    then show ?thesis by auto
  next
    assume "\<exists>i<length cols. i < length vs \<and> k = cols ! i \<and> v = convert_cell (vs ! i)"
    then obtain i where "i < length cols" "i < length vs" "k = cols ! i" "v = convert_cell (vs ! i)"
      by blast
    then have "Suc i < length (col # cols) \<and> Suc i < length (v0 # vs)
        \<and> k = (col # cols) ! Suc i \<and> v = convert_cell ((v0 # vs) ! Suc i)" by simp
    then show ?thesis by blast
  qed
qed

lemma row_dict_loop_keeps:
  "row_dict_loop cols row acc = Inr d \<Longrightarrow> k \<notin> set cols \<Longrightarrow> map_of d k = map_of acc k"
  by (induction cols row acc rule: row_dict_loop.induct) (auto simp: update_conv')

lemma row_dict_loop_lookup:
  "row_dict_loop cols row acc = Inr d \<Longrightarrow> i < length cols
     \<Longrightarrow> cols ! i \<notin> set (drop (Suc i) cols)
     \<Longrightarrow> i < length row \<and> map_of d (cols ! i) = Some (convert_cell (row ! i))"
proof (induction cols row acc arbitrary: i rule: row_dict_loop.induct)
  case (1 row row_dict)
  then show ?case by simp
next
  case (2 col cols row_dict)
  then show ?case by simp
next
  case (3 col cols v0 vs row_dict)
  from "3.prems" have r: "row_dict_loop cols vs (AList.update col (convert_cell v0) row_dict) = Inr d"
    by simp
  show ?case
  proof (cases i)
    case 0
    with "3.prems" have "col \<notin> set cols" by simp
    from row_dict_loop_keeps [OF r this] 0 show ?thesis by (simp add: update_conv')
  next
    case (Suc j)
    with "3.prems" have "j < length cols" "cols ! j \<notin> set (drop (Suc j) cols)" by simp_all
    from "3.IH" [OF r this] Suc show ?thesis by simp
  qed
qed

lemma results_loop_rows:
  "results_loop cols fetched acc = Inr results
     \<Longrightarrow> \<exists>ds. results = acc @ ds \<and> length ds = length fetched
            \<and> (\<forall>j < length fetched. row_dict_loop cols (fetched ! j) [] = Inr (ds ! j))"
proof (induction fetched arbitrary: acc)
  case Nil
  then show ?case by simp
next
  case (Cons row fetched)
  from Cons.prems obtain d where d: "row_dict_loop cols row [] = Inr d"
    and r: "results_loop cols fetched (acc @ [d]) = Inr results"
    by (auto split: sum.splits)
  from Cons.IH [OF r] obtain ds where ds: "results = (acc @ [d]) @ ds" "length ds = length fetched"
    "\<forall>j < length fetched. row_dict_loop cols (fetched ! j) [] = Inr (ds ! j)"
    by blast
  have "\<forall>j < length (row # fetched). row_dict_loop cols ((row # fetched) ! j) [] = Inr ((d # ds) ! j)"
  proof (intro allI impI)
    fix j assume "j < length (row # fetched)"
    then show "row_dict_loop cols ((row # fetched) ! j) [] = Inr ((d # ds) ! j)"
      using d ds(3) by (cases j) simp_all
  qed
  with ds(1,2) show ?case by (intro exI [of _ "d # ds"]) simp
qed

lemma results_loop_nth:
  assumes "results_loop cols fetched [] = Inr results"
  shows "length results = length fetched"
    and "j < length fetched \<Longrightarrow> row_dict_loop cols (fetched ! j) [] = Inr (results ! j)"
  using results_loop_rows [OF assms] by auto

text \<open>
  C4. In every \<^verbatim>\<open>SELECT\<close> result no value of any row is a \<^verbatim>\<open>bytes\<close> or
  \<^verbatim>\<open>bytearray\<close> object, and the result has one row per fetched row in which a
  binary cell of \<open>N\<close> bytes appears, under its column name, as the text
  \<^verbatim>\<open><binary data, N bytes>\<close>. (A row is a dict keyed by column name: of two
  columns with one name the later one is the cell that the row holds.)
\<close>

theorem binary_cells_replaced:
  assumes "execute_query drv self query = (Select cols rws n, self')"
  shows "(\<forall>row \<in> set rws. \<forall>(k, v) \<in> set row. \<not> is_binary v)
    \<and> (\<exists>c cur c1 fetched.
          connection self = Some c \<and> drv_execute drv c query = (Inr cur, c1)
          \<and> description cur = Some cols \<and> fetchall cur = Inr fetched
          \<and> length rws = length fetched
          \<and> (\<forall>j < length fetched. \<forall>i < length cols.
                cols ! i \<notin> set (drop (Suc i) cols) \<longrightarrow> is_binary (fetched ! j ! i) \<longrightarrow>
                map_of (rws ! j) (cols ! i)
                  = Some (PyStr (''<binary data, '' @ str_nat (byte_length (fetched ! j ! i))
                                   @ '' bytes>''))))"
proof -
  from execute_query_SelectD [OF assms] obtain c cur c1 fetched where
    h: "connection self = Some c" "drv_execute drv c query = (Inr cur, c1)"
       "description cur = Some cols" "fetchall cur = Inr fetched"
       "results_loop cols fetched [] = Inr rws"
    by blast
  note nth = results_loop_nth [OF h(5)]
  have no_bytes: "\<forall>row \<in> set rws. \<forall>(k, v) \<in> set row. \<not> is_binary v"
  proof (intro ballI, clarify)
    fix row k v assume "row \<in> set rws" "(k, v) \<in> set row" "is_binary v"
    then obtain j where j: "j < length rws" "row = rws ! j" by (auto simp: in_set_conv_nth)
    with nth have "row_dict_loop cols (fetched ! j) [] = Inr row" by simp
    from row_dict_loop_values [OF this \<open>(k, v) \<in> set row\<close>]
    obtain i where "v = convert_cell (fetched ! j ! i)" by auto
    with \<open>is_binary v\<close> show False by (simp add: convert_cell_not_binary)
  qed
  have placeholders: "\<forall>j < length fetched. \<forall>i < length cols.
      cols ! i \<notin> set (drop (Suc i) cols) \<longrightarrow> is_binary (fetched ! j ! i) \<longrightarrow>
      map_of (rws ! j) (cols ! i)
        = Some (PyStr (''<binary data, '' @ str_nat (byte_length (fetched ! j ! i)) @ '' bytes>''))"
  proof (intro allI impI)
    fix j i
    assume j: "j < length fetched" and i: "i < length cols"
      and last: "cols ! i \<notin> set (drop (Suc i) cols)" and b: "is_binary (fetched ! j ! i)"
    from nth(2) [OF j] have "row_dict_loop cols (fetched ! j) [] = Inr (rws ! j)" .
    from row_dict_loop_lookup [OF this i last]
    have "map_of (rws ! j) (cols ! i) = Some (convert_cell (fetched ! j ! i))" by simp
    with convert_cell_binary [OF b] show "map_of (rws ! j) (cols ! i)
        = Some (PyStr (''<binary data, '' @ str_nat (byte_length (fetched ! j ! i)) @ '' bytes>''))"
      by simp
  qed
  from h nth(1) no_bytes placeholders show ?thesis by blast
qed

lemma demo_select:
  "execute_query demo (demo_explorer three_rows) ''SELECT x, b FROM t''
     = (Select [''x'', ''b'']
         [[(''x'', PyInt 7), (''b'', PyStr ''<binary data, 12 bytes>'')],
          [(''x'', PyInt 8), (''b'', PyStr ''<binary data, 0 bytes>'')],
          [(''x'', PyInt 9), (''b'', PyStr ''<binary data, 3 bytes>'')]] 3,
        demo_explorer three_rows)"
  by code_simp

theorem binary_cells_replaced_witness:
  "execute_query demo (demo_explorer three_rows) ''SELECT x, b FROM t''
     = (Select [''x'', ''b'']
         [[(''x'', PyInt 7), (''b'', PyStr ''<binary data, 12 bytes>'')],
          [(''x'', PyInt 8), (''b'', PyStr ''<binary data, 0 bytes>'')],
          [(''x'', PyInt 9), (''b'', PyStr ''<binary data, 3 bytes>'')]] 3,
        demo_explorer three_rows)
   \<and> length ''0123456789ab'' = 12
   \<and> list_all (list_all (\<lambda>(k, v). \<not> is_binary v))
         [[(''x'', PyInt 7), (''b'', PyStr ''<binary data, 12 bytes>'')],
          [(''x'', PyInt 8), (''b'', PyStr ''<binary data, 0 bytes>'')],
          [(''x'', PyInt 9), (''b'', PyStr ''<binary data, 3 bytes>'')]]"
proof -
  from binary_cells_replaced [OF demo_select]
  have "\<forall>row \<in> set [[(''x'', PyInt 7), (''b'', PyStr ''<binary data, 12 bytes>'')],
          [(''x'', PyInt 8), (''b'', PyStr ''<binary data, 0 bytes>'')],
          [(''x'', PyInt 9), (''b'', PyStr ''<binary data, 3 bytes>'')]].
         \<forall>(k, v) \<in> set row. \<not> is_binary v"
    by (rule conjunct1)
  then have "list_all (list_all (\<lambda>(k, v). \<not> is_binary v))
         [[(''x'', PyInt 7), (''b'', PyStr ''<binary data, 12 bytes>'')],
          [(''x'', PyInt 8), (''b'', PyStr ''<binary data, 0 bytes>'')],
          [(''x'', PyInt 9), (''b'', PyStr ''<binary data, 3 bytes>'')]]"
    unfolding list_all_iff .
  with demo_select show ?thesis by simp
qed

theorem row_count_is_length_witness:
  "execute_query demo (demo_explorer three_rows) ''SELECT x, b FROM t''
     = (Select [''x'', ''b'']
         [[(''x'', PyInt 7), (''b'', PyStr ''<binary data, 12 bytes>'')],
          [(''x'', PyInt 8), (''b'', PyStr ''<binary data, 0 bytes>'')],
          [(''x'', PyInt 9), (''b'', PyStr ''<binary data, 3 bytes>'')]] 3,
        demo_explorer three_rows)
   \<and> (3::int) = int (length [[(''x'', PyInt 7), (''b'', PyStr ''<binary data, 12 bytes>'')],
          [(''x'', PyInt 8), (''b'', PyStr ''<binary data, 0 bytes>'')],
          [(''x'', PyInt 9), (''b'', PyStr ''<binary data, 3 bytes>'')]])"
  using row_count_is_length [OF demo_select] demo_select by blast

text \<open>
  C7. \<^verbatim>\<open>format_table\<close> gives the fixed text \<^verbatim>\<open>No data to display\<close> for every
  \<^verbatim>\<open>SELECT\<close> result with no rows or no columns; and a statement that produces
  columns but no row yields the result with these columns, no rows and row count 0,
  which is formatted as that text.
\<close>

theorem no_data_placeholder:
  "(rws = [] \<or> cols = [] \<longrightarrow> format_table (Select cols rws n) = ''No data to display'')
   \<and> (connection self = Some c \<and> drv_execute drv c query = (Inr cur, c1)
        \<and> description cur = Some cols \<and> cols \<noteq> [] \<and> fetchall cur = Inr []
      \<longrightarrow> execute_query drv self query = (Select cols [] 0, self\<lparr>connection := Some c1\<rparr>)
          \<and> format_table (fst (execute_query drv self query)) = ''No data to display'')"
  by (auto simp: format_table_def execute_query_def run_sql_def truthy_def)

lemma demo_no_rows: "drv_execute demo three_rows ''SELECT x FROM t WHERE x > 100''
   = (Inr \<lparr>description = Some [''x''], fetchall = Inr [], rowcount = - 1\<rparr>, three_rows)"
  by (simp add: demo_def demo_execute_def three_rows_def rowset_def)

theorem no_data_placeholder_witness:
  "execute_query demo (demo_explorer three_rows) ''SELECT x FROM t WHERE x > 100''
     = (Select [''x''] [] 0, demo_explorer three_rows)
   \<and> format_table (fst (execute_query demo (demo_explorer three_rows) ''SELECT x FROM t WHERE x > 100''))
       = ''No data to display''
   \<and> format_table (Select [] [[(''x'', PyInt 7)]] 1) = ''No data to display''"
proof -
  have a: "connection (demo_explorer three_rows) = Some three_rows"
    by (simp add: demo_explorer_def)
  have b: "description \<lparr>description = Some [''x''], fetchall = Inr [], rowcount = - 1\<rparr> = Some [''x'']"
    "[''x''] \<noteq> []" "fetchall \<lparr>description = Some [''x''], fetchall = Inr [], rowcount = - 1\<rparr> = Inr []"
    by simp_all
  have e: "(demo_explorer three_rows)\<lparr>connection := Some three_rows\<rparr> = demo_explorer three_rows"
    by (simp add: demo_explorer_def)
  from no_data_placeholder [of "[[(''x'', PyInt 7)]]" "[]" 1]
  have z: "format_table (Select [] [[(''x'', PyInt 7)]] 1) = ''No data to display''" by simp
  from no_data_placeholder [of "[]" "[''x'']" 0 "demo_explorer three_rows" three_rows demo
      "''SELECT x FROM t WHERE x > 100''" "\<lparr>description = Some [''x''], fetchall = Inr [], rowcount = - 1\<rparr>" three_rows]
    a b demo_no_rows e z
  show ?thesis by simp
qed














section \<open>Properties of the schema description and of the generation client\<close>

lemma same_database_print: "same_database a b \<Longrightarrow> same_database (print l a) b"
  "same_database a b \<Longrightarrow> same_database a (print l b)"
  by (simp_all add: same_database_def print_def)

lemma run_sql_same:
  assumes "same_database a b" and "run_sql drv a sql = (r, a')"
  shows "\<exists>b'. run_sql drv b sql = (r, b') \<and> same_database a' b'"
  using assms
  by (auto simp: run_sql_def same_database_def split: option.splits prod.splits)

lemma get_tables_same:
  assumes "same_database a b" and "get_tables drv a = (r, a')"
  shows "\<exists>b'. get_tables drv b = (r, b') \<and> same_database a' b'"
proof -
  obtain x a1 where x: "run_sql drv a tables_sql = (x, a1)" by (cases "run_sql drv a tables_sql")
  from run_sql_same [OF assms(1) x] obtain b1 where
    y: "run_sql drv b tables_sql = (x, b1)" and s: "same_database a1 b1" by blast
  from assms(2) x y s show ?thesis
    by (auto simp: get_tables_def tables_failed_def same_database_print split: sum.splits)
qed

lemma get_table_structure_same:
  assumes "same_database a b" and "get_table_structure drv a t = (r, a')"
  shows "\<exists>b'. get_table_structure drv b t = (r, b') \<and> same_database a' b'"
proof -
  let ?q1 = "''PRAGMA table_info('' @ py_str t @ '')''"
  let ?q2 = "''PRAGMA foreign_key_list('' @ py_str t @ '')''"
  obtain x a1 where x: "run_sql drv a ?q1 = (x, a1)" by (cases "run_sql drv a ?q1")
  from run_sql_same [OF assms(1) x] obtain b1 where
    y: "run_sql drv b ?q1 = (x, b1)" and s: "same_database a1 b1" by blast
  obtain x2 a2 where x2: "run_sql drv a1 ?q2 = (x2, a2)" by (cases "run_sql drv a1 ?q2")
  from run_sql_same [OF s x2] obtain b2 where
    y2: "run_sql drv b1 ?q2 = (x2, b2)" and s2: "same_database a2 b2" by blast
  from assms(2) x y s x2 y2 s2 show ?thesis
    by (auto simp: get_table_structure_def structure_failed_def same_database_print
        split: sum.splits)
qed

lemma count_rows_same:
  assumes "same_database a b" and "count_rows drv a t = (r, a')"
  shows "\<exists>b'. count_rows drv b t = (r, b') \<and> same_database a' b'"
proof -
  let ?q = "''SELECT COUNT(*) FROM '' @ py_str t"
  obtain x a1 where x: "run_sql drv a ?q = (x, a1)" by (cases "run_sql drv a ?q")
  from run_sql_same [OF assms(1) x] obtain b1 where
    y: "run_sql drv b ?q = (x, b1)" and s: "same_database a1 b1" by blast
  from assms(2) x y s show ?thesis
    by (auto simp: count_rows_def split: sum.splits)
qed

lemma schema_loop_same:
  "same_database a b \<Longrightarrow> schema_loop drv ts descr a = (r, a')
     \<Longrightarrow> \<exists>b'. schema_loop drv ts descr b = (r, b') \<and> same_database a' b'"
proof (induction ts arbitrary: descr a b)
  case Nil
  then show ?case by simp
next
  case (Cons t ts)
  obtain st a1 where x: "get_table_structure drv a t = (st, a1)"
    by (cases "get_table_structure drv a t")
  from get_table_structure_same [OF Cons.prems(1) x] obtain b1 where
    y: "get_table_structure drv b t = (st, b1)" and s: "same_database a1 b1" by blast
  obtain n a2 where x2: "count_rows drv a1 t = (n, a2)" by (cases "count_rows drv a1 t")
  from count_rows_same [OF s x2] obtain b2 where
    y2: "count_rows drv b1 t = (n, b2)" and s2: "same_database a2 b2" by blast
  show ?case
  proof (cases n)
    case (Inl e)
    with Cons.prems(2) x y x2 y2 s2 show ?thesis by simp
  next
    case (Inr cnt)
    with Cons.prems(2) x x2 have
      "schema_loop drv ts (descr @ structure_text t st @ ''Row count: '' @ py_str cnt
          @ ''\<newline>\<newline>'') a2 = (r, a')" by simp
    from Cons.IH [OF s2 this] Inr y y2 show ?thesis by simp
  qed
qed

lemma get_schema_for_ollama_same:
  assumes "same_database a b" and "get_schema_for_ollama drv a = (r, a')"
  shows "\<exists>b'. get_schema_for_ollama drv b = (r, b') \<and> same_database a' b'"
proof -
  obtain ts a1 where x: "get_tables drv a = (ts, a1)" by (cases "get_tables drv a")
  from get_tables_same [OF assms(1) x] obtain b1 where
    y: "get_tables drv b = (ts, b1)" and s: "same_database a1 b1" by blast
  from assms(2) x have "schema_loop drv ts (''Database: '' @ basename (db_file a)
      @ ''\<newline>\<newline>'') a1 = (r, a')"
    by (simp add: get_schema_for_ollama_def)
  from schema_loop_same [OF s this] y assms(1) show ?thesis
    by (simp add: get_schema_for_ollama_def same_database_def)
qed

lemma run_sql_db_file: "run_sql drv a sql = (r, a') \<Longrightarrow> db_file a' = db_file a"
  by (auto simp: run_sql_def split: option.splits prod.splits)

lemma get_tables_db_file: "get_tables drv a = (r, a') \<Longrightarrow> db_file a' = db_file a"
  by (auto simp: get_tables_def tables_failed_def print_def
      split: prod.splits sum.splits dest: run_sql_db_file)

lemma get_table_structure_db_file:
  "get_table_structure drv a t = (r, a') \<Longrightarrow> db_file a' = db_file a"
  by (auto simp: get_table_structure_def structure_failed_def print_def
      split: prod.splits sum.splits dest!: run_sql_db_file)

lemma count_rows_db_file: "count_rows drv a t = (r, a') \<Longrightarrow> db_file a' = db_file a"
  by (auto simp: count_rows_def split: prod.splits sum.splits dest: run_sql_db_file)

lemma schema_loop_db_file:
  "schema_loop drv ts descr a = (r, a') \<Longrightarrow> db_file a' = db_file a"
proof (induction ts arbitrary: descr a)
  case Nil
  then show ?case by simp
next
  case (Cons t ts)
  then show ?case
    by (auto split: prod.splits sum.splits
        dest!: get_table_structure_db_file count_rows_db_file)
qed

lemma get_schema_for_ollama_db_file:
  "get_schema_for_ollama drv a = (r, a') \<Longrightarrow> db_file a' = db_file a"
  by (auto simp: get_schema_for_ollama_def split: prod.splits
      dest!: get_tables_db_file schema_loop_db_file)


lemma run_sql_stdout: "run_sql drv a sql = (r, a') \<Longrightarrow> stdout a' = stdout a"
  by (auto simp: run_sql_def split: option.splits prod.splits)

lemma get_table_structure_outcome:
  assumes "get_table_structure drv self t = (r, self')"
  shows "stdout self' = stdout self
    \<or> (r = \<lparr>columns = [], foreign_keys = []\<rparr>
        \<and> (\<exists>e. stdout self' = stdout self
               @ [''Error retrieving structure for table '' @ py_str t @ '': '' @ e]))"
proof -
  let ?q1 = "''PRAGMA table_info('' @ py_str t @ '')''"
  let ?q2 = "''PRAGMA foreign_key_list('' @ py_str t @ '')''"
  obtain x a1 where x: "run_sql drv self ?q1 = (x, a1)" by (cases "run_sql drv self ?q1")
  obtain x2 a2 where x2: "run_sql drv a1 ?q2 = (x2, a2)" by (cases "run_sql drv a1 ?q2")
  from run_sql_stdout [OF x] run_sql_stdout [OF x2]
  have s: "stdout a1 = stdout self" "stdout a2 = stdout self" by simp_all
  from assms x x2 s show ?thesis
    by (auto simp: get_table_structure_def structure_failed_def print_def split: sum.splits)
qed

lemma schema_loop_continues:
  assumes "get_table_structure drv self t = (st, self1)"
    and "count_rows drv self1 t = (Inr n, self2)"
  shows "schema_loop drv (t # ts) descr self
     = schema_loop drv ts
         (descr @ structure_text t st @ ''Row count: '' @ py_str n @ ''\<newline>\<newline>'') self2"
  using assms by simp

lemma schema_loop_aborts:
  assumes "get_table_structure drv self t = (st, self1)"
    and "count_rows drv self1 t = (Inl e, self2)"
  shows "schema_loop drv (t # ts) descr self = (Inl e, self2)"
  using assms by simp

lemma schema_loop_introspect:
  "schema_loop drv ts descr self =
     (case introspect_loop drv ts self of
        (Inl e, s) \<Rightarrow> (Inl e, s)
      | (Inr snapshot, s) \<Rightarrow> (Inr (descr @ concat (map table_text snapshot)), s))"
proof (induction ts arbitrary: descr self)
  case Nil
  then show ?case by simp
next
  case (Cons t ts)
  show ?case
    by (simp add: Cons.IH table_text_def split: prod.splits sum.splits)
qed

lemma get_schema_for_ollama_factors:
  "get_schema_for_ollama drv self =
     (case introspect drv self of
        (Inl e, s) \<Rightarrow> (Inl e, s)
      | (Inr snapshot, s) \<Rightarrow> (Inr (build_description (db_file self) snapshot), s))"
  by (simp add: get_schema_for_ollama_def introspect_def schema_loop_introspect
      build_description_def split: prod.splits sum.splits)

lemma get_schema_for_ollama_no_tables:
  assumes "connection self = Some c" and "drv_execute drv c tables_sql = (Inl e, c1)"
  shows "get_schema_for_ollama drv self
     = (Inr (''Database: '' @ basename (db_file self) @ ''\<newline>\<newline>''),
        self\<lparr>connection := Some c1, stdout := stdout self @ [''Error retrieving tables: '' @ e]\<rparr>)"
  using assms
  by (simp add: get_schema_for_ollama_def get_tables_def run_sql_def tables_failed_def print_def)

lemma count_rows_reads:
  assumes "connection self = Some c"
    and "drv_execute drv c (''SELECT COUNT(*) FROM '' @ py_str t) = (Inr cur, c1)"
    and "fetchall cur = Inr ((n # cells) # others)"
  shows "count_rows drv self t = (Inr n, self\<lparr>connection := Some c1\<rparr>)"
  using assms by (simp add: count_rows_def run_sql_def fetchone_first_def)

text \<open>
  C5 as stated fails. The description is not a function of what introspection returns:
  two databases with the same tables and the same structure of every table are
  described by different texts, because \<^verbatim>\<open>get_schema_for_ollama\<close> asks the
  database for the row counts itself. And it has an effect: on a file that is not a
  database, a line is printed.
\<close>

theorem schema_description_reads_database:
  "fst (get_tables demo (demo_explorer three_rows)) = fst (get_tables demo (demo_explorer two_rows))
   \<and> fst (get_table_structure demo (demo_explorer three_rows) (PyStr ''t''))
       = fst (get_table_structure demo (demo_explorer two_rows) (PyStr ''t''))
   \<and> fst (get_schema_for_ollama demo (demo_explorer three_rows))
       \<noteq> fst (get_schema_for_ollama demo (demo_explorer two_rows))
   \<and> stdout (snd (get_schema_for_ollama not_a_database (demo_explorer three_rows)))
       = [''Error retrieving tables: file is not a database'']"
proof -
  have a: "fst (get_tables demo (demo_explorer three_rows)) = [PyStr ''t'']"
    and b: "fst (get_tables demo (demo_explorer two_rows)) = [PyStr ''t'']"
    by code_simp+
  have c: "fst (get_table_structure demo (demo_explorer three_rows) (PyStr ''t''))
       = fst (get_table_structure demo (demo_explorer two_rows) (PyStr ''t''))"
    by code_simp
  have d: "fst (get_schema_for_ollama demo (demo_explorer three_rows))
       = Inr ''Database: test.db\<newline>\<newline>Table: t\<newline>Columns:\<newline>  - x: INTEGER\<newline>  - b: BLOB\<newline>Row count: 3\<newline>\<newline>''"
    by code_simp
  have e: "fst (get_schema_for_ollama demo (demo_explorer two_rows))
       = Inr ''Database: test.db\<newline>\<newline>Table: t\<newline>Columns:\<newline>  - x: INTEGER\<newline>  - b: BLOB\<newline>Row count: 2\<newline>\<newline>''"
    by code_simp
  have f: "stdout (snd (get_schema_for_ollama not_a_database (demo_explorer three_rows)))
       = [''Error retrieving tables: file is not a database'']"
    by code_simp
  show ?thesis unfolding a b d e f using c by simp
qed

text \<open>
  C5, as the code has it. The text that \<^verbatim>\<open>get_schema_for_ollama\<close> returns is the
  rendering, by the builder of the specification, of the name of the database file and
  of a snapshot; but the method is not a function of a snapshot handed to it: it
  captures the snapshot itself on the live connection. It reads the list of tables (and
  prints a line and describes no table when that fails), the structure of each table
  and, by \<^verbatim>\<open>SELECT COUNT(*)\<close>, the row count of each table. Its result depends on
  the name of the file and the state of the database alone, not on what was printed
  before; so when the database is the same after a first invocation as before it, a
  second invocation gives the same text.
\<close>

theorem schema_description_of_live_database:
  "get_schema_for_ollama drv a =
     (case introspect drv a of
        (Inl e, s) \<Rightarrow> (Inl e, s)
      | (Inr snapshot, s) \<Rightarrow> (Inr (build_description (db_file a) snapshot), s))
   \<and> (connection a = Some c \<and> drv_execute drv c tables_sql = (Inl e, c') \<longrightarrow>
        get_schema_for_ollama drv a
          = (Inr (''Database: '' @ basename (db_file a) @ ''\<newline>\<newline>''),
             a\<lparr>connection := Some c',
               stdout := stdout a @ [''Error retrieving tables: '' @ e]\<rparr>))
   \<and> (connection a = Some c
        \<and> drv_execute drv c (''SELECT COUNT(*) FROM '' @ py_str t) = (Inr cur, c')
        \<and> fetchall cur = Inr ((n # cells) # others) \<longrightarrow>
        count_rows drv a t = (Inr n, a\<lparr>connection := Some c'\<rparr>))
   \<and> (same_database a b \<longrightarrow>
        fst (get_schema_for_ollama drv a) = fst (get_schema_for_ollama drv b))
   \<and> (connection (snd (get_schema_for_ollama drv a)) = connection a \<longrightarrow>
        fst (get_schema_for_ollama drv (snd (get_schema_for_ollama drv a)))
          = fst (get_schema_for_ollama drv a))"
proof (intro conjI impI)
  show "get_schema_for_ollama drv a =
     (case introspect drv a of
        (Inl e, s) \<Rightarrow> (Inl e, s)
      | (Inr snapshot, s) \<Rightarrow> (Inr (build_description (db_file a) snapshot), s))"
    by (rule get_schema_for_ollama_factors)
next
  assume "connection a = Some c \<and> drv_execute drv c tables_sql = (Inl e, c')"
  then show "get_schema_for_ollama drv a
          = (Inr (''Database: '' @ basename (db_file a) @ ''\<newline>\<newline>''),
             a\<lparr>connection := Some c',
               stdout := stdout a @ [''Error retrieving tables: '' @ e]\<rparr>)"
    by (simp add: get_schema_for_ollama_no_tables)
next
  assume "connection a = Some c
        \<and> drv_execute drv c (''SELECT COUNT(*) FROM '' @ py_str t) = (Inr cur, c')
        \<and> fetchall cur = Inr ((n # cells) # others)"
  then show "count_rows drv a t = (Inr n, a\<lparr>connection := Some c'\<rparr>)"
    by (simp add: count_rows_reads)
next
  assume s: "same_database a b"
  obtain r a' where x: "get_schema_for_ollama drv a = (r, a')"
    by (cases "get_schema_for_ollama drv a")
  from get_schema_for_ollama_same [OF s x] x
  show "fst (get_schema_for_ollama drv a) = fst (get_schema_for_ollama drv b)" by auto
next
  assume c: "connection (snd (get_schema_for_ollama drv a)) = connection a"
  obtain r a' where x: "get_schema_for_ollama drv a = (r, a')"
    by (cases "get_schema_for_ollama drv a")
  from get_schema_for_ollama_db_file [OF x] c x have "same_database a a'"
    by (simp add: same_database_def)
  from get_schema_for_ollama_same [OF this x] x
  show "fst (get_schema_for_ollama drv (snd (get_schema_for_ollama drv a)))
          = fst (get_schema_for_ollama drv a)" by auto
qed

lemma demo_schema:
  "get_schema_for_ollama demo (demo_explorer three_rows)
     = (Inr ''Database: test.db\<newline>\<newline>Table: t\<newline>Columns:\<newline>  - x: INTEGER\<newline>  - b: BLOB\<newline>Row count: 3\<newline>\<newline>'',
        demo_explorer three_rows)"
  by code_simp

lemma demo_count:
  "drv_execute demo three_rows (''SELECT COUNT(*) FROM '' @ py_str (PyStr ''t''))
     = (Inr \<lparr>description = Some [''COUNT(*)''], fetchall = Inr [[PyInt 3]], rowcount = - 1\<rparr>,
        three_rows)"
  by code_simp

lemma not_a_database_tables:
  "drv_execute not_a_database three_rows tables_sql = (Inl ''file is not a database'', three_rows)"
  by (simp add: not_a_database_def)

theorem schema_description_of_live_database_witness:
  "fst (get_schema_for_ollama demo (snd (get_schema_for_ollama demo (demo_explorer three_rows))))
       = Inr ''Database: test.db\<newline>\<newline>Table: t\<newline>Columns:\<newline>  - x: INTEGER\<newline>  - b: BLOB\<newline>Row count: 3\<newline>\<newline>''
   \<and> fst (get_schema_for_ollama demo
          ((demo_explorer three_rows)\<lparr>stdout := [''printed before'']\<rparr>))
       = Inr ''Database: test.db\<newline>\<newline>Table: t\<newline>Columns:\<newline>  - x: INTEGER\<newline>  - b: BLOB\<newline>Row count: 3\<newline>\<newline>''
   \<and> count_rows demo (demo_explorer three_rows) (PyStr ''t'')
       = (Inr (PyInt 3), demo_explorer three_rows)
   \<and> get_schema_for_ollama not_a_database (demo_explorer three_rows)
       = (Inr ''Database: test.db\<newline>\<newline>'',
          (demo_explorer three_rows)
            \<lparr>stdout := [''Error retrieving tables: file is not a database'']\<rparr>)"
proof -
  have k: "connection (demo_explorer three_rows) = Some three_rows"
    by (simp add: demo_explorer_def)
  have c: "connection (snd (get_schema_for_ollama demo (demo_explorer three_rows)))
     = connection (demo_explorer three_rows)"
    by (simp add: demo_schema)
  have s: "same_database (demo_explorer three_rows)
      ((demo_explorer three_rows)\<lparr>stdout := [''printed before'']\<rparr>)"
    by (simp add: same_database_def)
  have f: "fetchall \<lparr>description = Some [''COUNT(*)''], fetchall = Inr [[PyInt 3]], rowcount = - 1\<rparr>
      = Inr ((PyInt 3 # []) # [])" by simp
  have b: "basename ''/data/test.db'' = ''test.db''" by code_simp
  note t1 = schema_description_of_live_database
    [where drv = demo and a = "demo_explorer three_rows"
       and b = "(demo_explorer three_rows)\<lparr>stdout := [''printed before'']\<rparr>"]
  from t1 c have w1: "fst (get_schema_for_ollama demo
        (snd (get_schema_for_ollama demo (demo_explorer three_rows))))
      = fst (get_schema_for_ollama demo (demo_explorer three_rows))" by blast
  from t1 s have w2: "fst (get_schema_for_ollama demo (demo_explorer three_rows))
      = fst (get_schema_for_ollama demo
          ((demo_explorer three_rows)\<lparr>stdout := [''printed before'']\<rparr>))" by blast
  note t2 = schema_description_of_live_database
    [where drv = demo and a = "demo_explorer three_rows" and c = three_rows
       and t = "PyStr ''t''" and c' = three_rows and n = "PyInt 3" and cells = "[]"
       and others = "[]"
       and cur = "\<lparr>description = Some [''COUNT(*)''], fetchall = Inr [[PyInt 3]],
                   rowcount = - 1\<rparr>"]
  from t2 k demo_count f have w3: "count_rows demo (demo_explorer three_rows) (PyStr ''t'')
      = (Inr (PyInt 3), (demo_explorer three_rows)\<lparr>connection := Some three_rows\<rparr>)"
    by blast
  note t3 = schema_description_of_live_database
    [where drv = not_a_database and a = "demo_explorer three_rows" and c = three_rows
       and e = "''file is not a database''" and c' = three_rows]
  from t3 k not_a_database_tables
  have w4: "get_schema_for_ollama not_a_database (demo_explorer three_rows)
      = (Inr (''Database: '' @ basename (db_file (demo_explorer three_rows)) @ ''\<newline>\<newline>''),
         (demo_explorer three_rows)
           \<lparr>connection := Some three_rows,
            stdout := stdout (demo_explorer three_rows)
              @ [''Error retrieving tables: '' @ ''file is not a database'']\<rparr>)"
    by blast
  have d: "fst (get_schema_for_ollama demo (demo_explorer three_rows))
      = Inr ''Database: test.db\<newline>\<newline>Table: t\<newline>Columns:\<newline>  - x: INTEGER\<newline>  - b: BLOB\<newline>Row count: 3\<newline>\<newline>''"
    by (simp add: demo_schema)
  from w1 d have g1: "fst (get_schema_for_ollama demo
        (snd (get_schema_for_ollama demo (demo_explorer three_rows))))
      = Inr ''Database: test.db\<newline>\<newline>Table: t\<newline>Columns:\<newline>  - x: INTEGER\<newline>  - b: BLOB\<newline>Row count: 3\<newline>\<newline>''"
    by simp
  from w2 d have g2: "fst (get_schema_for_ollama demo
          ((demo_explorer three_rows)\<lparr>stdout := [''printed before'']\<rparr>))
      = Inr ''Database: test.db\<newline>\<newline>Table: t\<newline>Columns:\<newline>  - x: INTEGER\<newline>  - b: BLOB\<newline>Row count: 3\<newline>\<newline>''"
    by simp
  from w3 have g3: "count_rows demo (demo_explorer three_rows) (PyStr ''t'')
       = (Inr (PyInt 3), demo_explorer three_rows)"
    by (simp add: demo_explorer_def)
  from w4 b have g4: "get_schema_for_ollama not_a_database (demo_explorer three_rows)
       = (Inr ''Database: test.db\<newline>\<newline>'',
          (demo_explorer three_rows)
            \<lparr>stdout := [''Error retrieving tables: file is not a database'']\<rparr>)"
    by (simp add: demo_explorer_def)
  from g1 g2 g3 g4 show ?thesis by (intro conjI)
qed

lemma get_table_structure_handler:
  assumes "connection self = Some c"
    and "drv_execute drv c (''PRAGMA table_info('' @ py_str table_name @ '')'') = (Inl e, c1)"
  shows "get_table_structure drv self table_name
     = (\<lparr>columns = [], foreign_keys = []\<rparr>,
        self\<lparr>connection := Some c1,
             stdout := stdout self
               @ [''Error retrieving structure for table '' @ py_str table_name @ '': '' @ e]\<rparr>)"
  using assms
  by (simp add: get_table_structure_def run_sql_def structure_failed_def print_def)

text \<open>
  C6 at a database with the tables \<^verbatim>\<open>order\<close> and \<^verbatim>\<open>t\<close>. The structure of
  \<^verbatim>\<open>order\<close> cannot be read: \<^verbatim>\<open>get_table_structure\<close> returns the empty
  structure and prints its warning. But \<^verbatim>\<open>get_schema_for_ollama\<close>
  does not go on to \<^verbatim>\<open>t\<close>: its own row count for \<^verbatim>\<open>order\<close>, outside every
  \<^verbatim>\<open>try\<close>, raises, and the exception ends the method.
\<close>

theorem schema_aborts_after_failed_structure:
  "fst (get_tables demo (demo_explorer order_db)) = [PyStr ''order'', PyStr ''t'']
   \<and> get_table_structure demo (demo_explorer order_db) (PyStr ''order'')
       = (\<lparr>columns = [], foreign_keys = []\<rparr>,
          (demo_explorer order_db)
            \<lparr>stdout := [''Error retrieving structure for table order: near \"order\": syntax error'']\<rparr>)
   \<and> get_schema_for_ollama demo (demo_explorer order_db)
       = (Inl ''near \"order\": syntax error'',
          (demo_explorer order_db)
            \<lparr>stdout := [''Error retrieving structure for table order: near \"order\": syntax error'']\<rparr>)"
proof -
  have a: "fst (get_tables demo (demo_explorer order_db)) = [PyStr ''order'', PyStr ''t'']"
    by code_simp
  have b: "get_table_structure demo (demo_explorer order_db) (PyStr ''order'')
       = (\<lparr>columns = [], foreign_keys = []\<rparr>,
          (demo_explorer order_db)
            \<lparr>stdout := [''Error retrieving structure for table order: near \"order\": syntax error'']\<rparr>)"
    by code_simp
  have c: "get_schema_for_ollama demo (demo_explorer order_db)
       = (Inl ''near \"order\": syntax error'',
          (demo_explorer order_db)
            \<lparr>stdout := [''Error retrieving structure for table order: near \"order\": syntax error'']\<rparr>)"
    by code_simp
  from a b c show ?thesis by (intro conjI)
qed

text \<open>
  C8 as stated fails for replies that break the protocol without an exception. A reply
  with status 200 whose \<^verbatim>\<open>response\<close> is a list is returned as that list: not a
  string, and with no description of a failure, so that \<^verbatim>\<open>.strip()\<close> raises out of
  \<^verbatim>\<open>natural_language_to_sql\<close>. A reply without \<^verbatim>\<open>response\<close> gives the empty
  string.
\<close>

theorem generate_passes_malformed_reply:
  "fst (generate (reply (JObj [(''response'', JArr [JStr ''SELECT 1''])])) demo_client
          ''How many rows?'' [])
     = JArr [JStr ''SELECT 1'']
   \<and> fst (natural_language_to_sql (reply (JObj [(''response'', JArr [JStr ''SELECT 1''])]))
          demo_client ''Table: t'' ''How many rows?'' [])
     = Inl (no_attribute (JArr [JStr ''SELECT 1'']) ''strip'')
   \<and> fst (generate (reply (JObj [(''done'', JBool True)])) demo_client ''How many rows?'' [])
     = JStr []"
proof -
  have a: "fst (generate (reply (JObj [(''response'', JArr [JStr ''SELECT 1''])])) demo_client
          ''How many rows?'' [])
     = JArr [JStr ''SELECT 1'']"
    by (simp add: generate_def reply_def Let_def)
  have b: "fst (natural_language_to_sql (reply (JObj [(''response'', JArr [JStr ''SELECT 1''])]))
          demo_client ''Table: t'' ''How many rows?'' [])
     = Inl (no_attribute (JArr [JStr ''SELECT 1'']) ''strip'')"
    by (simp add: natural_language_to_sql_def generate_def reply_def Let_def)
  have c: "fst (generate (reply (JObj [(''done'', JBool True)])) demo_client ''How many rows?'' [])
     = JStr []"
    by (simp add: generate_def reply_def Let_def)
  from a b c show ?thesis by (intro conjI)
qed

text \<open>
  C8, as the code has it. \<^verbatim>\<open>generate\<close> returns a value in every case and raises
  nothing. When the request raises (no connection, timeout), the status of the response
  is an error, the body is not JSON, the body is not a JSON object, or its
  \<^verbatim>\<open>response\<close> is null, a Boolean or a number, the value is the string
  \<^verbatim>\<open>Error: \<close> followed by the text of the exception. Otherwise nothing is
  reported: without a \<^verbatim>\<open>response\<close> the value is the empty string, and a
  \<^verbatim>\<open>response\<close> that is a string, a list or an object is returned as it is.
\<close>

theorem generate_outcome:
  "fst (generate post self prompt out) =
     (case post (base_url self @ ''/api/generate'')
             \<lparr>p_model = model_name self, p_prompt = prompt, p_stream = False\<rparr> 60 of
        Inl e \<Rightarrow> JStr (''Error: '' @ e)
      | Inr resp \<Rightarrow>
          (case raise_for_status resp of
             Some e \<Rightarrow> JStr (''Error: '' @ e)
           | None \<Rightarrow>
               (case json_body resp of
                  Inl e \<Rightarrow> JStr (''Error: '' @ e)
                | Inr (JObj members) \<Rightarrow>
                    (case map_of members ''response'' of
                       None \<Rightarrow> JStr []
                     | Some (JStr s) \<Rightarrow> JStr s
                     | Some (JArr xs) \<Rightarrow> JArr xs
                     | Some (JObj kvs) \<Rightarrow> JObj kvs
                     | Some v \<Rightarrow>
                         JStr (''Error: object of type '' @ [CHR 0x27] @ type_name_of v
                                 @ [CHR 0x27] @ '' has no len()''))
                | Inr body \<Rightarrow> JStr (''Error: '' @ no_attribute body ''get''))))"
  by (simp add: generate_def generate_failed_def Let_def
      split: sum.splits option.splits json.splits)

theorem generate_outcome_witness:
  "fst (generate timeout_post demo_client ''How many rows?'' []) = JStr (''Error: '' @ read_timeout)
   \<and> fst (generate (reply (JObj [(''response'', JStr ''SELECT COUNT(*) FROM t'')])) demo_client
          ''How many rows?'' [])
     = JStr ''SELECT COUNT(*) FROM t''
   \<and> fst (generate (reply (JArr [])) demo_client ''How many rows?'' [])
     = JStr (''Error: '' @ no_attribute (JArr []) ''get'')"
proof -
  from generate_outcome [of timeout_post demo_client "''How many rows?''" "[]"]
  have a: "fst (generate timeout_post demo_client ''How many rows?'' [])
      = JStr (''Error: '' @ read_timeout)"
    by (simp add: timeout_post_def)
  from generate_outcome [of "reply (JObj [(''response'', JStr ''SELECT COUNT(*) FROM t'')])"
      demo_client "''How many rows?''" "[]"]
  have b: "fst (generate (reply (JObj [(''response'', JStr ''SELECT COUNT(*) FROM t'')]))
          demo_client ''How many rows?'' [])
     = JStr ''SELECT COUNT(*) FROM t''"
    by (simp add: reply_def)
  from generate_outcome [of "reply (JArr [])" demo_client "''How many rows?''" "[]"]
  have c: "fst (generate (reply (JArr [])) demo_client ''How many rows?'' [])
     = JStr (''Error: '' @ no_attribute (JArr []) ''get'')"
    by (simp add: reply_def)
  from a b c show ?thesis by (intro conjI)
qed

end
